theory Spec2Isabelle
  imports Complex_Main
begin

section \<open>Python values, errors and the notebook session\<close>

text \<open>
  The repository is two Jupyter notebooks, \<^verbatim>\<open>MNIST_cnn.ipynb\<close> and
  \<^verbatim>\<open>Reuters_MLP.ipynb\<close>. Their code is a sequence of top-level statements that
  bind names and call into NumPy, Keras, matplotlib and the helper module
  \<^verbatim>\<open>output_model\<close>. Every such call, and every operation on an object that came back
  from one, is a request to the world outside the notebook: the model records the request
  in a trace and takes the answer, a value or an exception, from a parameter.
\<close>

datatype pyval =
    PNone
  | PInt int
  | PFloat rat
  | PStr string
  | PTuple "pyval list"
  | PList "pyval list"
  | PSlice pyval pyval
  | PRef string
  | PObj nat

datatype error =
    NameError string
  | TypeError
  | ValueError
  | IndexError
  | Raised string

text \<open>
  \<open>Bind x v\<close>: the name \<open>x\<close> was bound to \<open>v\<close>. \<open>Request f t args kwargs\<close>: the
  callable written \<open>f\<close> in the source (a method is written with its dot, an operator with
  its sign) was applied to \<open>args\<close> and \<open>kwargs\<close>; \<open>t\<close> is what \<open>f\<close> was bound to, for
  a method or an operator the object it was applied on.
\<close>

datatype event =
    Bind string pyval
  | Request string pyval "pyval list" "(string \<times> pyval) list"

record session =
  globals :: "(string \<times> pyval) list"
  frame :: "(string \<times> pyval) list option"
  trace :: "event list"
  calls :: nat

text \<open>The world outside: its answer to the \<open>n\<close>-th request.\<close>

type_synonym framework = "nat \<Rightarrow> event \<Rightarrow> error + pyval"

type_synonym 'a py = "framework \<Rightarrow> session \<Rightarrow> (error + 'a) \<times> session"

definition ret :: "'a \<Rightarrow> 'a py" where
  "ret v fw s = (Inr v, s)"

definition raise :: "error \<Rightarrow> 'a py" where
  "raise e fw s = (Inl e, s)"

text \<open>Sequencing: an exception ends the computation.\<close>

definition bnd :: "'a py \<Rightarrow> ('a \<Rightarrow> 'b py) \<Rightarrow> 'b py" where
  "bnd m k fw s = (case m fw s of
       (Inl e, s') \<Rightarrow> (Inl e, s')
     | (Inr v, s') \<Rightarrow> k v fw s')"

definition logged :: "event \<Rightarrow> session \<Rightarrow> session" where
  "logged e s = s\<lparr>trace := trace s @ [e], calls := Suc (calls s)\<rparr>"

definition delegate :: "string \<Rightarrow> pyval \<Rightarrow> pyval list \<Rightarrow> (string \<times> pyval) list \<Rightarrow> pyval py" where
  "delegate f t args kwargs fw s =
     (fw (calls s) (Request f t args kwargs), logged (Request f t args kwargs) s)"

fun lookup :: "(string \<times> pyval) list \<Rightarrow> string \<Rightarrow> pyval option" where
  "lookup [] x = None"
| "lookup ((y, v) # rest) x = (if x = y then Some v else lookup rest x)"

definition builtins :: "string list" where
  "builtins = [''print'', ''range'', ''len'']"

text \<open>A name is looked up in the running function's frame, then in the notebook's
  globals, then among the builtins the notebooks use.\<close>

definition resolve :: "session \<Rightarrow> string \<Rightarrow> pyval option" where
  "resolve s x =
     (case (case frame s of None \<Rightarrow> None | Some fr \<Rightarrow> lookup fr x) of
        Some v \<Rightarrow> Some v
      | None \<Rightarrow> (case lookup (globals s) x of
          Some v \<Rightarrow> Some v
        | None \<Rightarrow> if x \<in> set builtins then Some (PRef (''builtins.'' @ x)) else None))"

definition name :: "string \<Rightarrow> pyval py" where
  "name x fw s = (case resolve s x of
       Some v \<Rightarrow> (Inr v, s)
     | None \<Rightarrow> (Inl (NameError x), s))"

definition stored :: "string \<Rightarrow> pyval \<Rightarrow> session \<Rightarrow> session" where
  "stored x v s = (case frame s of
       Some fr \<Rightarrow> s\<lparr>frame := Some ((x, v) # fr), trace := trace s @ [Bind x v]\<rparr>
     | None \<Rightarrow> s\<lparr>globals := (x, v) # globals s, trace := trace s @ [Bind x v]\<rparr>)"

definition store :: "string \<Rightarrow> pyval \<Rightarrow> unit py" where
  "store x v fw s = (Inr (), stored x v s)"

subsection \<open>Expressions\<close>

fun evals :: "pyval py list \<Rightarrow> pyval list py" where
  "evals [] = ret []"
| "evals (e # es) = bnd e (\<lambda>v. bnd (evals es) (\<lambda>vs. ret (v # vs)))"

fun evalkw :: "(string \<times> pyval py) list \<Rightarrow> (string \<times> pyval) list py" where
  "evalkw [] = ret []"
| "evalkw ((k, e) # es) = bnd e (\<lambda>v. bnd (evalkw es) (\<lambda>vs. ret ((k, v) # vs)))"

definition tuple :: "pyval py list \<Rightarrow> pyval py" where
  "tuple es = bnd (evals es) (\<lambda>vs. ret (PTuple vs))"

definition list_lit :: "pyval py list \<Rightarrow> pyval py" where
  "list_lit es = bnd (evals es) (\<lambda>vs. ret (PList vs))"

definition slice :: "pyval py \<Rightarrow> pyval py \<Rightarrow> pyval py" where
  "slice lo hi = bnd lo (\<lambda>a. bnd hi (\<lambda>b. ret (PSlice a b)))"

text \<open>\<open>f(args, kwargs)\<close>: the name \<open>f\<close> is looked up, the arguments are evaluated from
  left to right, and the call is made.\<close>

definition call :: "string \<Rightarrow> pyval py list \<Rightarrow> (string \<times> pyval py) list \<Rightarrow> pyval py" where
  "call f args kwargs =
     bnd (name f) (\<lambda>fv. bnd (evals args) (\<lambda>vs. bnd (evalkw kwargs) (\<lambda>kvs.
       delegate f fv vs kvs)))"

text \<open>\<open>range(e)\<close> is Python's own: it makes no request.\<close>

definition range :: "pyval py \<Rightarrow> pyval py" where
  "range e = bnd (name ''range'') (\<lambda>_. bnd e (\<lambda>v. case v of
       PInt n \<Rightarrow> ret (PList (map (\<lambda>k. PInt (int k)) [0..<nat n]))
     | _ \<Rightarrow> raise TypeError))"

text \<open>\<open>e.m(args, kwargs)\<close> and \<open>e.a\<close>.\<close>

definition meth :: "pyval py \<Rightarrow> string \<Rightarrow> pyval py list \<Rightarrow> (string \<times> pyval py) list \<Rightarrow> pyval py" where
  "meth e m args kwargs =
     bnd e (\<lambda>v. bnd (evals args) (\<lambda>vs. bnd (evalkw kwargs) (\<lambda>kvs.
       delegate (''.'' @ m) v vs kvs)))"

definition attr :: "pyval py \<Rightarrow> string \<Rightarrow> pyval py" where
  "attr e a = bnd e (\<lambda>v. delegate ''getattr'' v [PStr a] [])"

text \<open>
  An operator is Python's own on Python's own values (integers, and integer indices into
  lists and tuples); on anything else it is a request to the object on its left.
\<close>

definition operator :: "string \<Rightarrow> pyval \<Rightarrow> pyval \<Rightarrow> (error + pyval) option \<Rightarrow> pyval py" where
  "operator f x y native fw s = (case native of
       Some r \<Rightarrow> (r, s)
     | None \<Rightarrow> delegate f x [y] [] fw s)"

definition items :: "pyval \<Rightarrow> pyval list option" where
  "items v = (case v of PTuple vs \<Rightarrow> Some vs | PList vs \<Rightarrow> Some vs | _ \<Rightarrow> None)"

definition native_item :: "pyval \<Rightarrow> pyval \<Rightarrow> (error + pyval) option" where
  "native_item v k = (case k of
       PInt i \<Rightarrow> (case items v of
           Some xs \<Rightarrow>
             (let n = int (length xs); j = (if i < 0 then n + i else i)
              in if 0 \<le> j \<and> j < n then Some (Inr (xs ! nat j)) else Some (Inl IndexError))
         | None \<Rightarrow> None)
     | _ \<Rightarrow> None)"

definition native_sub :: "pyval \<Rightarrow> pyval \<Rightarrow> (error + pyval) option" where
  "native_sub x y = (case (x, y) of (PInt m, PInt n) \<Rightarrow> Some (Inr (PInt (m - n))) | _ \<Rightarrow> None)"

definition native_add :: "pyval \<Rightarrow> pyval \<Rightarrow> (error + pyval) option" where
  "native_add x y = (case (x, y) of (PInt m, PInt n) \<Rightarrow> Some (Inr (PInt (m + n))) | _ \<Rightarrow> None)"

definition subscript :: "pyval py \<Rightarrow> pyval py \<Rightarrow> pyval py" where
  "subscript e i = bnd e (\<lambda>v. bnd i (\<lambda>k. operator ''[]'' v k (native_item v k)))"

definition sub :: "pyval py \<Rightarrow> pyval py \<Rightarrow> pyval py" where
  "sub a b = bnd a (\<lambda>x. bnd b (\<lambda>y. operator ''-'' x y (native_sub x y)))"

definition add :: "pyval py \<Rightarrow> pyval py \<Rightarrow> pyval py" where
  "add a b = bnd a (\<lambda>x. bnd b (\<lambda>y. operator ''+'' x y (native_add x y)))"

text \<open>Division gives a float, which Python's own integers do not model: always a request.\<close>

definition truediv :: "pyval py \<Rightarrow> pyval py \<Rightarrow> pyval py" where
  "truediv a b = bnd a (\<lambda>x. bnd b (\<lambda>y. delegate ''/'' x [y] []))"

subsection \<open>Statements\<close>

datatype target = TName string | TTuple "target list"

fun unpack :: "target \<Rightarrow> pyval \<Rightarrow> unit py"
and unpack_all :: "target list \<Rightarrow> pyval list \<Rightarrow> unit py" where
  "unpack (TName x) v = store x v"
| "unpack (TTuple ts) v = (case items v of
       Some vs \<Rightarrow> unpack_all ts vs
     | None \<Rightarrow> raise TypeError)"
| "unpack_all [] [] = ret ()"
| "unpack_all (t # ts) (v # vs) = bnd (unpack t v) (\<lambda>_. unpack_all ts vs)"
| "unpack_all [] (v # vs) = raise ValueError"
| "unpack_all (t # ts) [] = raise ValueError"

definition assign :: "target \<Rightarrow> pyval py \<Rightarrow> unit py" where
  "assign t e = bnd e (unpack t)"

text \<open>\<open>x /= e\<close>\<close>

definition idiv_assign :: "string \<Rightarrow> pyval py \<Rightarrow> unit py" where
  "idiv_assign x e =
     bnd (name x) (\<lambda>v. bnd e (\<lambda>d. bnd (delegate ''/='' v [d] []) (store x)))"

definition expr_stmt :: "pyval py \<Rightarrow> unit py" where
  "expr_stmt e = bnd e (\<lambda>_. ret ())"

fun block :: "unit py list \<Rightarrow> unit py" where
  "block [] = ret ()"
| "block (c # cs) = bnd c (\<lambda>_. block cs)"

fun iterate :: "string \<Rightarrow> pyval list \<Rightarrow> unit py \<Rightarrow> unit py" where
  "iterate x [] body = ret ()"
| "iterate x (v # vs) body = bnd (store x v) (\<lambda>_. bnd body (\<lambda>_. iterate x vs body))"

definition for_in :: "string \<Rightarrow> pyval py \<Rightarrow> unit py list \<Rightarrow> unit py" where
  "for_in x e body = bnd e (\<lambda>v. case items v of
       Some vs \<Rightarrow> iterate x vs (block body)
     | None \<Rightarrow> raise TypeError)"

text \<open>\<open>import m as x\<close> and \<open>from m import xs\<close>.\<close>

definition import_as :: "string \<Rightarrow> string \<Rightarrow> unit py" where
  "import_as m x = bnd (delegate ''import'' PNone [PStr m] []) (\<lambda>_. store x (PRef m))"

definition from_import :: "string \<Rightarrow> string list \<Rightarrow> unit py" where
  "from_import m xs =
     bnd (delegate ''import'' PNone [PStr m] [])
       (\<lambda>_. block (map (\<lambda>x. store x (PRef (m @ ''.'' @ x))) xs))"

text \<open>The IPython magic \<open>%m arg\<close>.\<close>

definition magic :: "string \<Rightarrow> string \<Rightarrow> unit py" where
  "magic m arg = bnd (delegate (''%'' @ m) PNone [PStr arg] []) (\<lambda>_. ret ())"

text \<open>
  \<open>def f(params): body\<close> binds \<open>f\<close>. A call of \<open>f\<close> looks the name up, evaluates the
  arguments and runs the body in a frame of its own, which holds the parameters and the
  names the body binds; the notebooks' one function returns nothing.
\<close>

definition def_stmt :: "string \<Rightarrow> unit py" where
  "def_stmt f = store f (PRef (''__main__.'' @ f))"

fun bind_all :: "(string \<times> pyval) list \<Rightarrow> unit py" where
  "bind_all [] = ret ()"
| "bind_all ((x, v) # rest) = bnd (store x v) (\<lambda>_. bind_all rest)"

definition in_frame :: "(string \<times> pyval) list \<Rightarrow> unit py \<Rightarrow> unit py" where
  "in_frame fr body fw s =
     (case bnd (bind_all fr) (\<lambda>_. body) fw (s\<lparr>frame := Some []\<rparr>) of
        (r, s') \<Rightarrow> (r, s'\<lparr>frame := frame s\<rparr>))"

definition invoke :: "string \<Rightarrow> string list \<Rightarrow> unit py \<Rightarrow> pyval py list \<Rightarrow> unit py" where
  "invoke f params body args =
     bnd (name f) (\<lambda>_. bnd (evals args) (\<lambda>vs.
       if length vs = length params then in_frame (zip params vs) body
       else raise TypeError))"

text \<open>\<open>try: body except: handler\<close>. Neither notebook has one.\<close>

definition try_except :: "unit py \<Rightarrow> unit py \<Rightarrow> unit py" where
  "try_except body handler fw s = (case body fw s of
       (Inl e, s') \<Rightarrow> handler fw s'
     | (Inr u, s') \<Rightarrow> (Inr u, s'))"

section \<open>Syntax of the notebooks' Python and its meaning\<close>

datatype binop = Plus | Minus | Divide

datatype expr =
    Name string
  | IntLit int
  | FloatLit rat
  | StrLit string
  | NoneLit
  | TupleE "expr list"
  | ListE "expr list"
  | SliceE expr expr
  | Attr expr string
  | Subscript expr expr
  | BinOp expr binop expr
  | Call string "expr list" "(string \<times> expr) list"
  | Method expr string "expr list" "(string \<times> expr) list"
  | Range expr

datatype stmt =
    Assign target expr
  | DivAssign string expr
  | ExprStmt expr
  | For string expr "stmt list"
  | Import string string
  | FromImport string "string list"
  | Magic string string
  | Def string "string list" "stmt list"
  | Invoke string "string list" "stmt list" "expr list"
  | Try "stmt list" "stmt list"

fun eval :: "expr \<Rightarrow> pyval py" where
  "eval (Name x) = name x"
| "eval (IntLit n) = ret (PInt n)"
| "eval (FloatLit r) = ret (PFloat r)"
| "eval (StrLit t) = ret (PStr t)"
| "eval NoneLit = ret PNone"
| "eval (TupleE es) = tuple (map eval es)"
| "eval (ListE es) = list_lit (map eval es)"
| "eval (SliceE lo hi) = slice (eval lo) (eval hi)"
| "eval (Attr e a) = attr (eval e) a"
| "eval (Subscript e i) = subscript (eval e) (eval i)"
| "eval (BinOp a Plus b) = add (eval a) (eval b)"
| "eval (BinOp a Minus b) = sub (eval a) (eval b)"
| "eval (BinOp a Divide b) = truediv (eval a) (eval b)"
| "eval (Call f args kwargs) = call f (map eval args) (map (map_prod id eval) kwargs)"
| "eval (Method e m args kwargs) =
     meth (eval e) m (map eval args) (map (map_prod id eval) kwargs)"
| "eval (Range e) = range (eval e)"

fun exec :: "stmt \<Rightarrow> unit py" where
  "exec (Assign t e) = assign t (eval e)"
| "exec (DivAssign x e) = idiv_assign x (eval e)"
| "exec (ExprStmt e) = expr_stmt (eval e)"
| "exec (For x e body) = for_in x (eval e) (map exec body)"
| "exec (Import m x) = import_as m x"
| "exec (FromImport m xs) = from_import m xs"
| "exec (Magic m arg) = magic m arg"
| "exec (Def f params body) = def_stmt f"
| "exec (Invoke f params body args) = invoke f params (block (map exec body)) (map eval args)"
| "exec (Try body handler) = try_except (block (map exec body)) (block (map exec handler))"

definition initial :: session where
  "initial = \<lparr>globals = [], frame = None, trace = [], calls = 0\<rparr>"

definition run :: "stmt list list \<Rightarrow> framework \<Rightarrow> (error + unit) \<times> session" where
  "run cells fw = block (map exec (concat cells)) fw initial"

section \<open>The Reuters notebook\<close>

definition reuters_imports :: "stmt list" where
  "reuters_imports = [
     FromImport ''__future__'' [''print_function''],
     Import ''numpy'' ''np'',
     ExprStmt (Method (Attr (Name ''np'') ''random'') ''seed'' [IntLit 1337] []),
     FromImport ''keras.datasets'' [''reuters''],
     FromImport ''keras.models'' [''Sequential''],
     FromImport ''keras.layers'' [''Dense'', ''Dropout'', ''Activation''],
     FromImport ''keras.utils'' [''np_utils''],
     FromImport ''keras.preprocessing.text'' [''Tokenizer'']]"

definition reuters_settings :: "stmt list" where
  "reuters_settings = [
     Assign (TName ''max_words'') (IntLit 1000),
     Assign (TName ''batch_size'') (IntLit 32),
     Assign (TName ''nb_epoch'') (IntLit 15),
     Assign (TName ''nb_dense'') (IntLit 512),
     Assign (TName ''nb_hidden'') (IntLit 1),
     Assign (TName ''p_dropout'') (FloatLit 0.5)]"

definition reuters_data :: "stmt list" where
  "reuters_data = [
     ExprStmt (Call ''print'' [StrLit ''Loading data...''] []),
     Assign (TTuple [TTuple [TName ''X_train'', TName ''y_train''],
                     TTuple [TName ''X_test'', TName ''y_test'']])
       (Method (Name ''reuters'') ''load_data'' []
          [(''nb_words'', Name ''max_words''), (''test_split'', FloatLit 0.2)]),
     ExprStmt (Call ''print''
       [Call ''len'' [Name ''X_train''] [], StrLit ''train sequences''] []),
     ExprStmt (Call ''print''
       [Call ''len'' [Name ''X_test''] [], StrLit ''test sequences''] []),
     Assign (TName ''nb_classes'')
       (BinOp (Method (Name ''np'') ''max'' [Name ''y_train''] []) Plus (IntLit 1)),
     ExprStmt (Call ''print'' [Name ''nb_classes'', StrLit ''classes''] []),
     ExprStmt (Call ''print'' [StrLit ''Vectorizing sequence data...''] []),
     Assign (TName ''tokenizer'')
       (Call ''Tokenizer'' [] [(''nb_words'', Name ''max_words'')]),
     Assign (TName ''X_train'')
       (Method (Name ''tokenizer'') ''sequences_to_matrix'' [Name ''X_train'']
          [(''mode'', StrLit ''binary'')]),
     Assign (TName ''X_test'')
       (Method (Name ''tokenizer'') ''sequences_to_matrix'' [Name ''X_test'']
          [(''mode'', StrLit ''binary'')]),
     ExprStmt (Call ''print''
       [StrLit ''X_train shape:'', Attr (Name ''X_train'') ''shape''] []),
     ExprStmt (Call ''print''
       [StrLit ''X_test shape:'', Attr (Name ''X_test'') ''shape''] []),
     ExprStmt (Call ''print''
       [StrLit ''Convert class vector to binary class matrix (for use with categorical_crossentropy)''] []),
     Assign (TName ''Y_train'')
       (Method (Name ''np_utils'') ''to_categorical'' [Name ''y_train'', Name ''nb_classes''] []),
     Assign (TName ''Y_test'')
       (Method (Name ''np_utils'') ''to_categorical'' [Name ''y_test'', Name ''nb_classes''] []),
     ExprStmt (Call ''print''
       [StrLit ''Y_train shape:'', Attr (Name ''Y_train'') ''shape''] []),
     ExprStmt (Call ''print''
       [StrLit ''Y_test shape:'', Attr (Name ''Y_test'') ''shape''] [])]"

definition reuters_model :: "stmt list" where
  "reuters_model = [
     ExprStmt (Call ''print'' [StrLit ''Building model...''] []),
     Assign (TName ''model'') (Call ''Sequential'' [] []),
     ExprStmt (Method (Name ''model'') ''add''
       [Call ''Dense'' [Name ''nb_dense'']
          [(''input_shape'', TupleE [Name ''max_words''])]] []),
     ExprStmt (Method (Name ''model'') ''add''
       [Call ''Activation'' [StrLit ''relu''] []] []),
     ExprStmt (Method (Name ''model'') ''add''
       [Call ''Dropout'' [Name ''p_dropout''] []] []),
     For ''_'' (Range (BinOp (Name ''nb_hidden'') Minus (IntLit 1))) [
       ExprStmt (Method (Name ''model'') ''add''
         [Call ''Dense'' [Name ''nb_dense''] []] []),
       ExprStmt (Method (Name ''model'') ''add''
         [Call ''Activation'' [StrLit ''relu''] []] []),
       ExprStmt (Method (Name ''model'') ''add''
         [Call ''Dropout'' [Name ''p_dropout''] []] [])],
     ExprStmt (Method (Name ''model'') ''add''
       [Call ''Dense'' [Name ''nb_classes''] []] []),
     ExprStmt (Method (Name ''model'') ''add''
       [Call ''Activation'' [StrLit ''softmax''] []] []),
     ExprStmt (Method (Name ''model'') ''compile'' []
       [(''loss'', StrLit ''categorical_crossentropy''),
        (''optimizer'', StrLit ''adam''),
        (''metrics'', ListE [StrLit ''accuracy''])])]"

definition reuters_fit :: "stmt list" where
  "reuters_fit = [
     Import ''time'' ''time'',
     Assign (TName ''t1'') (Method (Name ''time'') ''time'' [] []),
     Assign (TName ''history'')
       (Method (Name ''model'') ''fit'' [Name ''X_train'', Name ''Y_train'']
          [(''nb_epoch'', Name ''nb_epoch''), (''batch_size'', Name ''batch_size''),
           (''verbose'', IntLit 1), (''validation_split'', FloatLit 0.1)]),
     Assign (TName ''t2'') (Method (Name ''time'') ''time'' [] []),
     ExprStmt (Call ''print''
       [Method (StrLit ''Model training took {:.2g} minutes'') ''format''
          [BinOp (BinOp (Name ''t2'') Minus (Name ''t1'')) Divide (IntLit 60)] []] [])]"

definition reuters_evaluate :: "stmt list" where
  "reuters_evaluate = [
     Assign (TName ''score'')
       (Method (Name ''model'') ''evaluate'' [Name ''X_test'', Name ''Y_test'']
          [(''batch_size'', Name ''batch_size''), (''verbose'', IntLit 1)]),
     ExprStmt (Call ''print''
       [StrLit ''\<newline>Test score:'', Subscript (Name ''score'') (IntLit 0)] []),
     ExprStmt (Call ''print''
       [StrLit ''Test accuracy:'', Subscript (Name ''score'') (IntLit 1)] [])]"

definition reuters_save :: "stmt list" where
  "reuters_save = [
     Import ''output_model'' ''output_model'',
     ExprStmt (Method (Name ''output_model'') ''save_model''
       [Name ''model'', StrLit ''models/Reuters_MLP_model''] [])]"

definition reuters_notebook :: "stmt list list" where
  "reuters_notebook = [reuters_imports, reuters_settings, reuters_data, reuters_model,
     reuters_fit, reuters_evaluate, reuters_save]"

section \<open>The MNIST notebook\<close>

definition mnist_imports :: "stmt list" where
  "mnist_imports = [
     FromImport ''__future__'' [''print_function'', ''absolute_import'', ''division''],
     Import ''numpy'' ''np'',
     ExprStmt (Method (Attr (Name ''np'') ''random'') ''seed'' [IntLit 1337] []),
     FromImport ''keras.datasets'' [''mnist''],
     FromImport ''keras.models'' [''Sequential''],
     FromImport ''keras.layers'' [''Dense'', ''Dropout'', ''Activation'', ''Flatten''],
     FromImport ''keras.layers'' [''Convolution2D'', ''MaxPooling2D''],
     FromImport ''keras.utils'' [''np_utils'']]"

definition mnist_settings :: "stmt list" where
  "mnist_settings = [
     Assign (TName ''batch_size'') (IntLit 128),
     Assign (TName ''nb_classes'') (IntLit 10),
     Assign (TName ''nb_epoch'') (IntLit 12),
     Assign (TTuple [TName ''img_rows'', TName ''img_cols'']) (TupleE [IntLit 28, IntLit 28]),
     Assign (TName ''nb_filters'') (IntLit 32),
     Assign (TName ''nb_pool'') (IntLit 2),
     Assign (TName ''nb_conv'') (IntLit 3),
     Assign (TName ''conv_dropout'') (FloatLit 0.25),
     Assign (TName ''dens_dropout'') (FloatLit 0.5),
     Assign (TName ''nb_hidden'') (IntLit 128)]"

definition mnist_data :: "stmt list" where
  "mnist_data = [
     Assign (TTuple [TTuple [TName ''X_train'', TName ''y_train''],
                     TTuple [TName ''X_test'', TName ''y_test'']])
       (Method (Name ''mnist'') ''load_data'' [] []),
     Assign (TName ''X_train'')
       (Method (Name ''X_train'') ''reshape''
          [Subscript (Attr (Name ''X_train'') ''shape'') (IntLit 0), IntLit 1,
           Name ''img_rows'', Name ''img_cols''] []),
     Assign (TName ''X_test'')
       (Method (Name ''X_test'') ''reshape''
          [Subscript (Attr (Name ''X_test'') ''shape'') (IntLit 0), IntLit 1,
           Name ''img_rows'', Name ''img_cols''] []),
     Assign (TName ''X_train'') (Method (Name ''X_train'') ''astype'' [StrLit ''float32''] []),
     Assign (TName ''X_test'') (Method (Name ''X_test'') ''astype'' [StrLit ''float32''] []),
     DivAssign ''X_train'' (IntLit 255),
     DivAssign ''X_test'' (IntLit 255),
     ExprStmt (Call ''print''
       [StrLit ''X_train shape:'', Attr (Name ''X_train'') ''shape''] []),
     ExprStmt (Call ''print''
       [Subscript (Attr (Name ''X_train'') ''shape'') (IntLit 0), StrLit ''train samples''] []),
     ExprStmt (Call ''print''
       [Subscript (Attr (Name ''X_test'') ''shape'') (IntLit 0), StrLit ''test samples''] []),
     Assign (TName ''Y_train'')
       (Method (Name ''np_utils'') ''to_categorical'' [Name ''y_train'', Name ''nb_classes''] []),
     Assign (TName ''Y_test'')
       (Method (Name ''np_utils'') ''to_categorical'' [Name ''y_test'', Name ''nb_classes''] [])]"

definition mnist_model :: "stmt list" where
  "mnist_model = [
     Assign (TName ''model'') (Call ''Sequential'' [] []),
     ExprStmt (Method (Name ''model'') ''add''
       [Call ''Convolution2D'' [Name ''nb_filters'', Name ''nb_conv'', Name ''nb_conv'']
          [(''border_mode'', StrLit ''valid''),
           (''input_shape'', TupleE [IntLit 1, Name ''img_rows'', Name ''img_cols''])]] []),
     ExprStmt (Method (Name ''model'') ''add''
       [Call ''Activation'' [StrLit ''relu''] []] []),
     ExprStmt (Method (Name ''model'') ''add''
       [Call ''Convolution2D'' [Name ''nb_filters'', Name ''nb_conv'', Name ''nb_conv''] []] []),
     ExprStmt (Method (Name ''model'') ''add''
       [Call ''Activation'' [StrLit ''relu''] []] []),
     ExprStmt (Method (Name ''model'') ''add''
       [Call ''MaxPooling2D'' []
          [(''pool_size'', TupleE [Name ''nb_pool'', Name ''nb_pool''])]] []),
     ExprStmt (Method (Name ''model'') ''add''
       [Call ''Dropout'' [Name ''conv_dropout''] []] []),
     ExprStmt (Method (Name ''model'') ''add'' [Call ''Flatten'' [] []] []),
     ExprStmt (Method (Name ''model'') ''add''
       [Call ''Dense'' [Name ''nb_hidden''] []] []),
     ExprStmt (Method (Name ''model'') ''add''
       [Call ''Activation'' [StrLit ''relu''] []] []),
     ExprStmt (Method (Name ''model'') ''add''
       [Call ''Dropout'' [Name ''dens_dropout''] []] []),
     ExprStmt (Method (Name ''model'') ''add''
       [Call ''Dense'' [Name ''nb_classes''] []] []),
     ExprStmt (Method (Name ''model'') ''add''
       [Call ''Activation'' [StrLit ''softmax''] []] []),
     ExprStmt (Method (Name ''model'') ''compile'' []
       [(''loss'', StrLit ''categorical_crossentropy''),
        (''optimizer'', StrLit ''adadelta''),
        (''metrics'', ListE [StrLit ''accuracy''])])]"

definition mnist_fit :: "stmt list" where
  "mnist_fit = [
     Import ''time'' ''time'',
     Assign (TName ''t1'') (Method (Name ''time'') ''time'' [] []),
     ExprStmt (Method (Name ''model'') ''fit'' [Name ''X_train'', Name ''Y_train'']
       [(''batch_size'', Name ''batch_size''), (''nb_epoch'', Name ''nb_epoch''),
        (''verbose'', IntLit 1),
        (''validation_data'', TupleE [Name ''X_test'', Name ''Y_test''])]),
     Assign (TName ''t2'') (Method (Name ''time'') ''time'' [] []),
     ExprStmt (Call ''print''
       [Method (StrLit ''Training Finished in {} minutes.'') ''format''
          [BinOp (BinOp (Name ''t2'') Minus (Name ''t1'')) Divide (IntLit 60)] []] [])]"

definition mnist_evaluate :: "stmt list" where
  "mnist_evaluate = [
     Assign (TName ''score'')
       (Method (Name ''model'') ''evaluate'' [Name ''X_test'', Name ''Y_test'']
          [(''verbose'', IntLit 0)]),
     ExprStmt (Call ''print''
       [StrLit ''Test score:'', Subscript (Name ''score'') (IntLit 0)] []),
     ExprStmt (Call ''print''
       [StrLit ''Test accuracy:'', Subscript (Name ''score'') (IntLit 1)] [])]"

definition mnist_plotting :: "stmt list" where
  "mnist_plotting = [
     Import ''matplotlib.pyplot'' ''plt'',
     Import ''seaborn'' ''sns'',
     ExprStmt (Method (Name ''sns'') ''set_style'' [StrLit ''white''] []),
     Magic ''matplotlib'' ''inline'']"

definition show_predictions :: "stmt list" where
  "show_predictions = [
     Assign (TName ''X'')
       (Subscript (Name ''X_test'')
          (TupleE [SliceE (Name ''i'') (BinOp (Name ''i'') Plus (IntLit 1)),
                   SliceE NoneLit (IntLit 1)])),
     Assign (TName ''digit_probs'')
       (Subscript (Method (Name ''model'') ''predict_proba'' [Name ''X''] []) (IntLit 0)),
     Assign (TName ''idx'') (Method (Name ''np'') ''argmax'' [Name ''digit_probs''] []),
     Assign (TName ''actual'')
       (Method (Name ''np'') ''argmax'' [Subscript (Name ''Y_test'') (Name ''i'')] []),
     Assign (TTuple [TName ''fig'', TName ''ax''])
       (Method (Name ''plt'') ''subplots'' [IntLit 1, IntLit 1] []),
     ExprStmt (Method (Name ''ax'') ''imshow''
       [Subscript (Name ''X'') (TupleE [IntLit 0, IntLit 0])] []),
     ExprStmt (Method (Name ''ax'') ''set_title''
       [Method (StrLit ''Predicted Digit = {}\<newline>Actual digit = {}'') ''format''
          [Name ''idx'', Name ''actual''] []] [])]"

definition mnist_define_show :: "stmt list" where
  "mnist_define_show = [Def ''show_predictions'' [''i''] show_predictions]"

definition mnist_show :: "stmt list" where
  "mnist_show = [
     Invoke ''show_predictions'' [''i''] show_predictions
       [Method (Attr (Name ''np'') ''random'') ''randint''
          [Subscript (Attr (Name ''X_test'') ''shape'') (IntLit 0)] []]]"

definition mnist_save :: "stmt list" where
  "mnist_save = [
     Import ''output_model'' ''output_model'',
     ExprStmt (Method (Name ''output_model'') ''save_model''
       [Name ''model'', StrLit ''models/MNIST_cnn_model''] [])]"

definition mnist_notebook :: "stmt list list" where
  "mnist_notebook = [mnist_imports, mnist_settings, mnist_data, mnist_model, mnist_fit,
     mnist_evaluate, mnist_plotting, mnist_define_show, mnist_show, mnist_save]"

section \<open>Observations on a trace\<close>

datatype label = Bound string | Called string

definition operators :: "string list" where
  "operators = [''[]'', ''-'', ''+'']"

fun labels :: "event list \<Rightarrow> label list" where
  "labels [] = []"
| "labels (Bind x v # tr) = Bound x # labels tr"
| "labels (Request f t args kwargs # tr) =
     (if f \<in> set operators then labels tr else Called f # labels tr)"

text \<open>
  The labels a statement adds to the trace when it returns, read off its text: first the
  labels of the expressions it evaluates, in Python's order, then its own. \<open>k\<close> is the
  number of times a loop's body runs.
\<close>

definition called :: "string \<Rightarrow> label list" where
  "called f = (if f \<in> set operators then [] else [Called f])"

fun elabels :: "expr \<Rightarrow> label list" where
  "elabels (Name x) = []"
| "elabels (IntLit n) = []"
| "elabels (FloatLit r) = []"
| "elabels (StrLit t) = []"
| "elabels NoneLit = []"
| "elabels (TupleE es) = concat (map elabels es)"
| "elabels (ListE es) = concat (map elabels es)"
| "elabels (SliceE lo hi) = elabels lo @ elabels hi"
| "elabels (Attr e a) = elabels e @ called ''getattr''"
| "elabels (Subscript e i) = elabels e @ elabels i"
| "elabels (BinOp a Plus b) = elabels a @ elabels b"
| "elabels (BinOp a Minus b) = elabels a @ elabels b"
| "elabels (BinOp a Divide b) = elabels a @ elabels b @ called ''/''"
| "elabels (Call f args kwargs) =
     concat (map elabels args) @ concat (map (\<lambda>kw. elabels (snd kw)) kwargs) @ called f"
| "elabels (Method e m args kwargs) =
     elabels e @ concat (map elabels args) @ concat (map (\<lambda>kw. elabels (snd kw)) kwargs)
       @ called (''.'' @ m)"
| "elabels (Range e) = elabels e"

fun tlabels :: "target \<Rightarrow> label list" where
  "tlabels (TName x) = [Bound x]"
| "tlabels (TTuple ts) = concat (map tlabels ts)"

fun slabels :: "nat \<Rightarrow> stmt \<Rightarrow> label list" where
  "slabels k (Assign t e) = elabels e @ tlabels t"
| "slabels k (DivAssign x e) = elabels e @ called ''/='' @ [Bound x]"
| "slabels k (ExprStmt e) = elabels e"
| "slabels k (For x e body) =
     elabels e @ concat (replicate k (Bound x # concat (map (slabels k) body)))"
| "slabels k (Import m x) = called ''import'' @ [Bound x]"
| "slabels k (FromImport m xs) = called ''import'' @ map Bound xs"
| "slabels k (Magic m arg) = called (''%'' @ m)"
| "slabels k (Def f params body) = [Bound f]"
| "slabels k (Invoke f params body args) =
     concat (map elabels args) @ map Bound params @ concat (map (slabels k) body)"
| "slabels k (Try body handler) = concat (map (slabels k) body)"

text \<open>Straight-line statements: no loop and no exception handler.\<close>

fun straight :: "stmt \<Rightarrow> bool" where
  "straight (For x e body) = False"
| "straight (Try body handler) = False"
| "straight (Invoke f params body args) = list_all straight body"
| "straight st = True"

text \<open>The names a statement binds; statements that call no function of the notebook.\<close>

fun tnames :: "target \<Rightarrow> string list" where
  "tnames (TName x) = [x]"
| "tnames (TTuple ts) = concat (map tnames ts)"

fun assigned :: "stmt \<Rightarrow> string list" where
  "assigned (Assign t e) = tnames t"
| "assigned (DivAssign x e) = [x]"
| "assigned (ExprStmt e) = []"
| "assigned (For x e body) = x # concat (map assigned body)"
| "assigned (Import m x) = [x]"
| "assigned (FromImport m xs) = xs"
| "assigned (Magic m arg) = []"
| "assigned (Def f params body) = [f]"
| "assigned (Invoke f params body args) = params @ concat (map assigned body)"
| "assigned (Try body handler) = concat (map assigned body) @ concat (map assigned handler)"

fun flat :: "stmt \<Rightarrow> bool" where
  "flat (Invoke f params body args) = False"
| "flat (Try body handler) = False"
| "flat (For x e body) = list_all flat body"
| "flat st = True"

definition sslabels :: "nat \<Rightarrow> stmt list \<Rightarrow> label list" where
  "sslabels k ss = concat (map (slabels k) ss)"

text \<open>
  The first request of a trace that the world answered with an exception, if any; \<open>n\<close> is
  the number of requests made before the trace starts.
\<close>

fun first_failure :: "framework \<Rightarrow> nat \<Rightarrow> event list \<Rightarrow> error option" where
  "first_failure fw n [] = None"
| "first_failure fw n (Bind x v # tr) = first_failure fw n tr"
| "first_failure fw n (Request f t args kwargs # tr) =
     (case fw n (Request f t args kwargs) of
        Inl e \<Rightarrow> Some e
      | Inr v \<Rightarrow> first_failure fw (Suc n) tr)"

fun nreq :: "event list \<Rightarrow> nat" where
  "nreq [] = 0"
| "nreq (Bind x v # tr) = nreq tr"
| "nreq (Request f t args kwargs # tr) = Suc (nreq tr)"

text \<open>Statements with no exception handler anywhere in them.\<close>

fun plain :: "stmt \<Rightarrow> bool" where
  "plain (Try body handler) = False"
| "plain (For x e body) = list_all plain body"
| "plain (Def f params body) = list_all plain body"
| "plain (Invoke f params body args) = list_all plain body"
| "plain st = True"

text \<open>A framework that never fails, answering as the recorded runs did where the
  notebooks look into the answer.\<close>

definition recorded :: framework where
  "recorded n e = (case e of
       Request f t args kwargs \<Rightarrow>
         if f = ''.load_data'' then Inr (PTuple [PTuple [PObj 1, PObj 2], PTuple [PObj 3, PObj 4]])
         else if f = ''.max'' then Inr (PInt 45)
         else if f = ''.evaluate'' then Inr (PList [PFloat 0.0387651254472, PFloat 0.9877])
         else if f = ''.subplots'' then Inr (PTuple [PObj 5, PObj 6])
         else if f = ''.randint'' then Inr (PInt 7)
         else Inr (PObj (100 + n))
     | Bind x v \<Rightarrow> Inr PNone)"

text \<open>The same, but the dataset cannot be downloaded.\<close>

definition no_network :: framework where
  "no_network n e = (case e of
       Request f t args kwargs \<Rightarrow>
         if f = ''.load_data'' then Inl (Raised ''URLError'') else recorded n e
     | Bind x v \<Rightarrow> Inr PNone)"

section \<open>Judgements on computations\<close>

text \<open>\<open>emits m L\<close>: whenever \<open>m\<close> returns, it has added the labels \<open>L\<close> to the trace.\<close>

definition emits :: "'a py \<Rightarrow> label list \<Rightarrow> bool" where
  "emits m L \<longleftrightarrow>
     (\<forall>fw s v s'. m fw s = (Inr v, s') \<longrightarrow> labels (trace s') = labels (trace s) @ L)"

text \<open>\<open>keeps x m\<close>: \<open>m\<close> leaves the name \<open>x\<close> bound as it was.\<close>

definition keeps :: "string \<Rightarrow> 'a py \<Rightarrow> bool" where
  "keeps x m \<longleftrightarrow> (\<forall>fw s r s'. m fw s = (r, s') \<longrightarrow> resolve s' x = resolve s x)"

text \<open>
  \<open>sound fw s\<close>: no request of the trace was answered with an exception. \<open>failed fw s e\<close>:
  none was, or the last event of the trace is the one request that was, with \<open>e\<close>.
  \<open>faithful m\<close>: from a sound state \<open>m\<close> returns in a sound state, and raises \<open>e\<close> in a
  state that failed with \<open>e\<close>.
\<close>

definition sound :: "framework \<Rightarrow> session \<Rightarrow> bool" where
  "sound fw s \<longleftrightarrow> calls s = nreq (trace s) \<and> first_failure fw 0 (trace s) = None"

definition failed :: "framework \<Rightarrow> session \<Rightarrow> error \<Rightarrow> bool" where
  "failed fw s e \<longleftrightarrow> first_failure fw 0 (trace s) = None \<or>
     (first_failure fw 0 (trace s) = Some e \<and> first_failure fw 0 (butlast (trace s)) = None)"

definition faithful :: "'a py \<Rightarrow> bool" where
  "faithful m \<longleftrightarrow> (\<forall>fw s r s'. m fw s = (r, s') \<longrightarrow> sound fw s \<longrightarrow>
     (case r of Inr v \<Rightarrow> sound fw s' | Inl e \<Rightarrow> failed fw s' e))"

section \<open>Proofs\<close>

subsection \<open>labels added by a computation that returns\<close>

lemma labels_append: "labels (a @ b) = labels a @ labels b"
  by (induction a rule: labels.induct) auto

lemma emitsI:
  "(\<And>fw s v s'. m fw s = (Inr v, s') \<Longrightarrow> labels (trace s') = labels (trace s) @ L) \<Longrightarrow> emits m L"
  by (simp add: emits_def)

lemma emitsD:
  "emits m L \<Longrightarrow> m fw s = (Inr v, s') \<Longrightarrow> labels (trace s') = labels (trace s) @ L"
  by (simp add: emits_def)

lemma emits_ret: "emits (ret v) []"
  by (simp add: emits_def ret_def)

lemma emits_raise: "emits (raise e) L"
  by (simp add: emits_def raise_def)

lemma bnd_returns:
  assumes "bnd m k fw s = (Inr v, s')"
  obtains x s1 where "m fw s = (Inr x, s1)" and "k x fw s1 = (Inr v, s')"
  using assms by (auto simp: bnd_def split: prod.splits sum.splits)

lemma emits_bnd:
  assumes "emits m L" and "\<And>v. emits (k v) M"
  shows "emits (bnd m k) (L @ M)"
proof (rule emitsI)
  fix fw s v s'
  assume "bnd m k fw s = (Inr v, s')"
  then obtain x s1 where m: "m fw s = (Inr x, s1)" and k: "k x fw s1 = (Inr v, s')"
    by (rule bnd_returns)
  from emitsD [OF assms(1) m] emitsD [OF assms(2) k]
  show "labels (trace s') = labels (trace s) @ L @ M" by simp
qed

lemma emits_bnd_nil: "emits m L \<Longrightarrow> (\<And>v. emits (k v) []) \<Longrightarrow> emits (bnd m k) L"
  using emits_bnd [of m L k "[]"] by simp

lemma emits_name: "emits (name x) []"
  by (auto simp: emits_def name_def split: option.splits)

lemma emits_store: "emits (store x v) [Bound x]"
  by (auto simp: emits_def store_def stored_def labels_append split: option.splits)

lemma emits_delegate: "emits (delegate f t args kw) (called f)"
  by (auto simp: emits_def delegate_def logged_def labels_append called_def)

lemma emits_operator: "f \<in> set operators \<Longrightarrow> emits (operator f x y native) []"
  by (auto simp: emits_def operator_def delegate_def logged_def labels_append split: option.splits)

lemma emits_evals:
  "list_all2 emits ms Ls \<Longrightarrow> emits (evals ms) (concat Ls)"
proof (induction ms Ls rule: list_all2_induct)
  case Nil
  then show ?case by (simp add: emits_ret)
next
  case (Cons m ms L Ls)
  have "emits (bnd m (\<lambda>v. bnd (evals ms) (\<lambda>vs. ret (v # vs)))) (L @ (concat Ls @ []))"
    by (intro emits_bnd emits_ret Cons)
  then show ?case by simp
qed

lemma emits_evalkw:
  "list_all2 (\<lambda>km L. emits (snd km) L) kms Ls \<Longrightarrow> emits (evalkw kms) (concat Ls)"
proof (induction kms Ls rule: list_all2_induct)
  case Nil
  then show ?case by (simp add: emits_ret)
next
  case (Cons km kms L Ls)
  obtain k m where km: "km = (k, m)" by (cases km)
  have "emits (bnd m (\<lambda>v. bnd (evalkw kms) (\<lambda>vs. ret ((k, v) # vs)))) (L @ (concat Ls @ []))"
    using Cons by (intro emits_bnd emits_ret) (simp_all add: km)
  then show ?case by (simp add: km)
qed

lemma emits_block:
  "list_all2 emits cs Ls \<Longrightarrow> emits (block cs) (concat Ls)"
proof (induction cs Ls rule: list_all2_induct)
  case Nil
  then show ?case by (simp add: emits_ret)
next
  case (Cons c cs L Ls)
  have "emits (bnd c (\<lambda>_. block cs)) (L @ concat Ls)"
    by (intro emits_bnd Cons)
  then show ?case by simp
qed

lemma emits_call:
  assumes "list_all2 emits args La" and "list_all2 (\<lambda>km L. emits (snd km) L) kwargs Lk"
  shows "emits (call f args kwargs) (concat La @ concat Lk @ called f)"
  unfolding call_def
  using emits_bnd [OF emits_name emits_bnd [OF emits_evals [OF assms(1)]
    emits_bnd [OF emits_evalkw [OF assms(2)] emits_delegate]]]
  by simp

lemma emits_meth:
  assumes "emits e Le" and "list_all2 emits args La"
    and "list_all2 (\<lambda>km L. emits (snd km) L) kwargs Lk"
  shows "emits (meth e m args kwargs) (Le @ concat La @ concat Lk @ called (''.'' @ m))"
  unfolding meth_def
  by (intro emits_bnd assms emits_evals emits_evalkw emits_delegate)

lemma emits_attr: "emits e Le \<Longrightarrow> emits (attr e a) (Le @ called ''getattr'')"
  unfolding attr_def by (intro emits_bnd emits_delegate)

lemma emits_tuple: "list_all2 emits es Ls \<Longrightarrow> emits (tuple es) (concat Ls)"
  unfolding tuple_def by (intro emits_bnd_nil emits_evals emits_ret)

lemma emits_list_lit: "list_all2 emits es Ls \<Longrightarrow> emits (list_lit es) (concat Ls)"
  unfolding list_lit_def by (intro emits_bnd_nil emits_evals emits_ret)

lemma emits_slice: "emits a La \<Longrightarrow> emits b Lb \<Longrightarrow> emits (slice a b) (La @ Lb)"
  unfolding slice_def
  using emits_bnd [of a La _ Lb, OF _ emits_bnd_nil [of b Lb, OF _ emits_ret]] by simp

lemma emits_binary:
  assumes "emits a La" "emits b Lb" "\<And>x y. emits (k x y) M"
  shows "emits (bnd a (\<lambda>x. bnd b (\<lambda>y. k x y))) (La @ Lb @ M)"
  by (intro emits_bnd assms)

lemma emits_subscript: "emits a La \<Longrightarrow> emits b Lb \<Longrightarrow> emits (subscript a b) (La @ Lb)"
  unfolding subscript_def
  using emits_binary [of a La b Lb "\<lambda>v k. operator ''[]'' v k (native_item v k)" "[]"]
  by (simp add: emits_operator operators_def)

lemma emits_sub: "emits a La \<Longrightarrow> emits b Lb \<Longrightarrow> emits (sub a b) (La @ Lb)"
  unfolding sub_def
  using emits_binary [of a La b Lb "\<lambda>x y. operator ''-'' x y (native_sub x y)" "[]"]
  by (simp add: emits_operator operators_def)

lemma emits_add: "emits a La \<Longrightarrow> emits b Lb \<Longrightarrow> emits (add a b) (La @ Lb)"
  unfolding add_def
  using emits_binary [of a La b Lb "\<lambda>x y. operator ''+'' x y (native_add x y)" "[]"]
  by (simp add: emits_operator operators_def)

lemma emits_truediv:
  "emits a La \<Longrightarrow> emits b Lb \<Longrightarrow> emits (truediv a b) (La @ Lb @ called ''/'')"
  unfolding truediv_def by (intro emits_binary emits_delegate)

lemma emits_range: "emits e L \<Longrightarrow> emits (range e) L"
proof -
  assume e: "emits e L"
  have "\<And>v. emits (case v of PInt n \<Rightarrow> ret (PList (map (\<lambda>k. PInt (int k)) [0..<nat n]))
       | _ \<Rightarrow> raise TypeError) []"
    by (simp add: emits_ret emits_raise split: pyval.splits)
  then have "emits (bnd (name ''range'') (\<lambda>_. bnd e (\<lambda>v. case v of
       PInt n \<Rightarrow> ret (PList (map (\<lambda>k. PInt (int k)) [0..<nat n]))
     | _ \<Rightarrow> raise TypeError))) ([] @ L @ [])"
    by (intro emits_bnd emits_name e)
  then show ?thesis by (simp add: range_def)
qed


lemma list_all2_map_both:
  "(\<And>x. x \<in> set xs \<Longrightarrow> P (f x) (g x)) \<Longrightarrow> list_all2 P (map f xs) (map g xs)"
  by (induction xs) auto

lemma emits_eval: "emits (eval e) (elabels e)"
proof (induction e)
  case (TupleE es)
  then show ?case by (auto intro!: emits_tuple list_all2_map_both)
next
  case (ListE es)
  then show ?case by (auto intro!: emits_list_lit list_all2_map_both)
next
  case (BinOp a b c)
  then show ?case
    by (cases b) (auto intro: emits_add emits_sub emits_truediv)
next
  case (Call f args kwargs)
  have a: "list_all2 emits (map eval args) (map elabels args)"
    using Call by (auto intro!: list_all2_map_both)
  have k: "list_all2 (\<lambda>km L. emits (snd km) L) (map (map_prod id eval) kwargs)
        (map (\<lambda>kw. elabels (snd kw)) kwargs)"
    using Call by (auto intro!: list_all2_map_both)
  from emits_call [OF a k] show ?case by simp
next
  case (Method e m args kwargs)
  have a: "list_all2 emits (map eval args) (map elabels args)"
    using Method by (auto intro!: list_all2_map_both)
  have k: "list_all2 (\<lambda>km L. emits (snd km) L) (map (map_prod id eval) kwargs)
        (map (\<lambda>kw. elabels (snd kw)) kwargs)"
    using Method by (auto intro!: list_all2_map_both)
  from emits_meth [OF Method(1) a k] show ?case by simp
qed (auto intro: emits_ret emits_name emits_slice emits_attr emits_subscript emits_range)

lemma emits_unpack:
  "emits (unpack t v) (tlabels t)"
  "emits (unpack_all ts vs) (concat (map tlabels ts))"
proof (induction t v and ts vs rule: unpack_unpack_all.induct)
  case (2 ts v)
  then show ?case by (cases "items v") (auto intro: emits_raise)
next
  case (4 t ts v vs)
  then show ?case by (auto intro!: emits_bnd)
qed (auto intro: emits_store emits_ret emits_raise)

lemma emits_assign: "emits e L \<Longrightarrow> emits (assign t e) (L @ tlabels t)"
  unfolding assign_def by (intro emits_bnd emits_unpack)

lemma emits_idiv_assign:
  "emits e L \<Longrightarrow> emits (idiv_assign x e) (L @ called ''/='' @ [Bound x])"
proof -
  assume e: "emits e L"
  have "emits (bnd (name x) (\<lambda>v. bnd e (\<lambda>d. bnd (delegate ''/='' v [d] []) (store x))))
      ([] @ L @ called ''/='' @ [Bound x])"
    by (intro emits_bnd emits_name e emits_delegate emits_store)
  then show ?thesis by (simp add: idiv_assign_def)
qed

lemma emits_expr_stmt: "emits e L \<Longrightarrow> emits (expr_stmt e) L"
  unfolding expr_stmt_def by (intro emits_bnd_nil emits_ret)

lemma emits_import_as: "emits (import_as m x) (called ''import'' @ [Bound x])"
  unfolding import_as_def by (intro emits_bnd emits_delegate emits_store)

lemma emits_stores: "emits (block (map (\<lambda>x. store x (f x)) xs)) (map Bound xs)"
  using emits_block [of "map (\<lambda>x. store x (f x)) xs" "map (\<lambda>x. [Bound x]) xs"]
  by (simp add: list_all2_map_both emits_store concat_map_singleton)

lemma emits_from_import: "emits (from_import m xs) (called ''import'' @ map Bound xs)"
  unfolding from_import_def by (intro emits_bnd emits_delegate emits_stores)

lemma emits_magic: "emits (magic m arg) (called (''%'' @ m))"
  unfolding magic_def by (intro emits_bnd_nil emits_delegate emits_ret)

lemma emits_def_stmt: "emits (def_stmt f) [Bound f]"
  unfolding def_stmt_def by (rule emits_store)

lemma emits_bind_all: "emits (bind_all bs) (map (\<lambda>b. Bound (fst b)) bs)"
proof (induction bs)
  case Nil
  then show ?case by (simp add: emits_ret)
next
  case (Cons b bs)
  obtain x v where b: "b = (x, v)" by (cases b)
  have "emits (bnd (store x v) (\<lambda>_. bind_all bs)) ([Bound x] @ map (\<lambda>b. Bound (fst b)) bs)"
    by (intro emits_bnd emits_store Cons)
  then show ?case by (simp add: b)
qed

lemma emits_in_frame:
  assumes "emits body L"
  shows "emits (in_frame bs body) (map (\<lambda>b. Bound (fst b)) bs @ L)"
proof (rule emitsI)
  fix fw s v s'
  assume run: "in_frame bs body fw s = (Inr v, s')"
  then obtain s1 where inner: "bnd (bind_all bs) (\<lambda>_. body) fw (s\<lparr>frame := Some []\<rparr>) = (Inr v, s1)"
    and s': "s' = s1\<lparr>frame := frame s\<rparr>"
    by (auto simp: in_frame_def split: prod.splits)
  have "emits (bnd (bind_all bs) (\<lambda>_. body)) (map (\<lambda>b. Bound (fst b)) bs @ L)"
    by (intro emits_bnd emits_bind_all assms)
  from emitsD [OF this inner] s'
  show "labels (trace s') = labels (trace s) @ map (\<lambda>b. Bound (fst b)) bs @ L" by simp
qed

lemma bound_zip:
  "length vs = length ps \<Longrightarrow> map (\<lambda>b. Bound (fst b)) (zip ps vs) = map Bound ps"
  by (induction ps vs rule: list_induct2') auto

lemma emits_invoke:
  assumes "list_all2 emits args La" and "emits body L"
  shows "emits (invoke f params body args) (concat La @ map Bound params @ L)"
proof -
  have "emits (if length vs = length params then in_frame (zip params vs) body
        else raise TypeError) (map Bound params @ L)" for vs
    using emits_in_frame [OF assms(2), of "zip params vs"]
    by (cases "length vs = length params") (simp_all add: emits_raise bound_zip)
  then have "emits (bnd (name f) (\<lambda>_. bnd (evals args) (\<lambda>vs.
       if length vs = length params then in_frame (zip params vs) body
       else raise TypeError))) ([] @ concat La @ map Bound params @ L)"
    by (intro emits_bnd emits_name emits_evals assms)
  then show ?thesis by (simp add: invoke_def)
qed

lemma emits_exec: "straight st \<Longrightarrow> emits (exec st) (slabels k st)"
proof (induction st)
  case (Invoke f params body args)
  have b: "list_all2 emits (map exec body) (map (slabels k) body)"
    using Invoke by (auto intro!: list_all2_map_both simp: list_all_iff)
  have a: "list_all2 emits (map eval args) (map elabels args)"
    by (auto intro!: list_all2_map_both emits_eval)
  from emits_invoke [OF a emits_block [OF b]] show ?case by simp
next
  case (Magic m arg)
  show ?case using emits_magic [of m arg] by simp
qed (auto intro: emits_assign emits_idiv_assign emits_expr_stmt emits_import_as
      emits_from_import emits_magic emits_def_stmt emits_eval)

lemma emits_execs: "list_all straight ss \<Longrightarrow> emits (block (map exec ss)) (sslabels k ss)"
  unfolding sslabels_def
  by (rule emits_block) (auto intro!: list_all2_map_both emits_exec simp: list_all_iff)

subsection \<open>names a computation leaves alone\<close>

lemma keepsD: "keeps x m \<Longrightarrow> m fw s = (r, s') \<Longrightarrow> resolve s' x = resolve s x"
  by (simp add: keeps_def)

lemma resolve_stored: "resolve (stored y v s) x = (if x = y then Some v else resolve s x)"
  by (auto simp: resolve_def stored_def split: option.splits)

lemma resolve_logged: "resolve (logged e s) x = resolve s x"
  by (simp add: resolve_def logged_def split: option.splits)

lemma keeps_ret: "keeps x (ret v)"
  by (simp add: keeps_def ret_def)

lemma keeps_raise: "keeps x (raise e)"
  by (simp add: keeps_def raise_def)

lemma keeps_bnd: "keeps x m \<Longrightarrow> (\<And>v. keeps x (k v)) \<Longrightarrow> keeps x (bnd m k)"
  unfolding keeps_def bnd_def
  by (auto split: prod.splits sum.splits)

lemma keeps_name: "keeps x (name y)"
  by (auto simp: keeps_def name_def split: option.splits)

lemma keeps_store: "x \<noteq> y \<Longrightarrow> keeps x (store y v)"
  by (auto simp: keeps_def store_def resolve_stored)

lemma keeps_delegate: "keeps x (delegate f t args kw)"
  by (auto simp: keeps_def delegate_def resolve_logged)

lemma keeps_operator: "keeps x (operator f a b native)"
  by (auto simp: keeps_def operator_def delegate_def resolve_logged split: option.splits)

lemma keeps_evals: "list_all (keeps x) ms \<Longrightarrow> keeps x (evals ms)"
  by (induction ms) (auto intro!: keeps_bnd keeps_ret)

lemma keeps_evalkw: "list_all (\<lambda>km. keeps x (snd km)) kms \<Longrightarrow> keeps x (evalkw kms)"
  by (induction kms) (auto intro!: keeps_bnd keeps_ret)

lemma keeps_block: "list_all (keeps x) cs \<Longrightarrow> keeps x (block cs)"
  by (induction cs) (auto intro!: keeps_bnd keeps_ret)

lemma keeps_iterate: "x \<noteq> y \<Longrightarrow> keeps x body \<Longrightarrow> keeps x (iterate y vs body)"
  by (induction vs) (auto intro!: keeps_bnd keeps_ret keeps_store)

lemma keeps_unpack:
  "x \<notin> set (tnames t) \<Longrightarrow> keeps x (unpack t v)"
  "x \<notin> set (concat (map tnames ts)) \<Longrightarrow> keeps x (unpack_all ts vs)"
proof (induction t v and ts vs rule: unpack_unpack_all.induct)
  case (2 ts v)
  then show ?case by (cases "items v") (auto intro: keeps_raise)
qed (auto intro!: keeps_bnd keeps_store keeps_ret keeps_raise)

lemma keeps_eval: "keeps x (eval e)"
proof (induction e)
  case (BinOp a b c)
  then show ?case
    by (cases b)
      (auto simp: add_def sub_def truediv_def intro!: keeps_bnd keeps_operator keeps_delegate)
next
  case (Call f args kwargs)
  then show ?case
    by (auto simp: call_def list_all_iff
      intro!: keeps_bnd keeps_name keeps_evals keeps_evalkw keeps_delegate)
next
  case (Method e m args kwargs)
  then show ?case
    by (auto simp: meth_def list_all_iff
      intro!: keeps_bnd keeps_evals keeps_evalkw keeps_delegate)
next
  case (Range e)
  then show ?case
    by (auto simp: range_def intro!: keeps_bnd keeps_name keeps_ret keeps_raise
      split: pyval.splits)
qed (auto simp: tuple_def list_lit_def slice_def attr_def subscript_def list_all_iff
      intro!: keeps_bnd keeps_ret keeps_name keeps_evals keeps_delegate keeps_operator)

lemma keeps_stores: "x \<notin> set xs \<Longrightarrow> keeps x (block (map (\<lambda>y. store y (f y)) xs))"
  by (rule keeps_block) (auto simp: list_all_iff intro!: keeps_store)

lemma keeps_exec: "flat st \<Longrightarrow> x \<notin> set (assigned st) \<Longrightarrow> keeps x (exec st)"
proof (induction st)
  case (For y e body)
  then show ?case
    by (auto simp: for_in_def list_all_iff
      intro!: keeps_bnd keeps_eval keeps_iterate keeps_block keeps_raise
      split: option.splits)
qed (auto simp: assign_def idiv_assign_def expr_stmt_def import_as_def from_import_def
      magic_def def_stmt_def
      intro!: keeps_bnd keeps_eval keeps_unpack keeps_name keeps_delegate
        keeps_store keeps_ret keeps_stores)

lemma keeps_execs:
  "list_all flat ss \<Longrightarrow> x \<notin> set (concat (map assigned ss)) \<Longrightarrow> keeps x (block (map exec ss))"
  by (rule keeps_block) (auto simp: list_all_iff intro!: keeps_exec)

subsection \<open>a loop over a range\<close>

lemma block_append_returns:
  assumes "block (as @ bs) fw s = (Inr u, s')"
  obtains s1 where "block as fw s = (Inr (), s1)" and "block bs fw s1 = (Inr u, s')"
  using assms
proof (induction as arbitrary: s thesis)
  case Nil
  then show ?case by (simp add: ret_def)
next
  case (Cons a as)
  from Cons.prems(2) obtain x s0 where a: "a fw s = (Inr x, s0)"
    and rest: "block (as @ bs) fw s0 = (Inr u, s')"
    by (auto elim: bnd_returns)
  from Cons.IH [OF _ rest] obtain s1 where "block as fw s0 = (Inr (), s1)"
    and "block bs fw s1 = (Inr u, s')" by blast
  with a Cons.prems(1) show ?case by (auto simp: bnd_def)
qed

lemma emits_iterate:
  "emits body B \<Longrightarrow> emits (iterate x vs body) (concat (replicate (length vs) (Bound x # B)))"
proof (induction vs)
  case Nil
  then show ?case by (simp add: emits_ret)
next
  case (Cons v vs)
  have "emits (bnd (store x v) (\<lambda>_. bnd body (\<lambda>_. iterate x vs body)))
      ([Bound x] @ B @ concat (replicate (length vs) (Bound x # B)))"
    by (intro emits_bnd emits_store Cons)
  then show ?case by simp
qed

lemma counted_loop:
  assumes run: "exec (For x (Range (BinOp (Name y) Minus (IntLit d))) body) fw s = (Inr u, s')"
    and y: "resolve s y = Some (PInt n)"
    and body: "list_all straight body"
  shows "labels (trace s') = labels (trace s) @
     slabels (nat (n - d)) (For x (Range (BinOp (Name y) Minus (IntLit d))) body)"
proof -
  let ?xs = "map (\<lambda>k. PInt (int k)) [0..<nat (n - d)]"
  from run obtain r where r: "resolve s ''range'' = Some r"
    by (auto simp: for_in_def range_def bnd_def name_def split: option.splits)
  from run have "iterate x ?xs (block (map exec body)) fw s = (Inr u, s')"
    by (simp add: for_in_def range_def sub_def bnd_def name_def ret_def operator_def
      native_sub_def items_def r y)
  from emitsD [OF emits_iterate [OF emits_execs [OF body]] this]
  show ?thesis by (simp add: sslabels_def)
qed

lemma loop_labels:
  assumes run: "block (map exec
        (B @ For x (Range (BinOp (Name y) Minus (IntLit d))) body # C)) fw s = (Inr u, s')"
    and y: "resolve s y = Some (PInt n)"
    and B: "list_all straight B" "list_all flat B" "y \<notin> set (concat (map assigned B))"
    and body: "list_all straight body" and C: "list_all straight C"
  shows "labels (trace s') = labels (trace s) @
     sslabels (nat (n - d)) (B @ For x (Range (BinOp (Name y) Minus (IntLit d))) body # C)"
proof -
  let ?loop = "For x (Range (BinOp (Name y) Minus (IntLit d))) body"
  let ?k = "nat (n - d)"
  from run have "block (map exec B @ exec ?loop # map exec C) fw s = (Inr u, s')" by simp
  then obtain s1 where b: "block (map exec B) fw s = (Inr (), s1)"
    and rest: "block (exec ?loop # map exec C) fw s1 = (Inr u, s')"
    by (rule block_append_returns)
  from rest obtain s2 where l: "exec ?loop fw s1 = (Inr (), s2)"
    and c: "block (map exec C) fw s2 = (Inr u, s')"
    by (auto elim: bnd_returns)
  from keepsD [OF keeps_execs [OF B(2,3)] b] y have "resolve s1 y = Some (PInt n)" by simp
  from counted_loop [OF l this body]
    emitsD [OF emits_execs [OF B(1), of ?k] b] emitsD [OF emits_execs [OF C, of ?k] c]
  show ?thesis by (simp add: sslabels_def)
qed

lemma settled_loop_labels:
  assumes run: "block (map exec (A @ Assign (TName y) (IntLit n) #
        B @ For x (Range (BinOp (Name y) Minus (IntLit d))) body # C)) fw s = (Inr u, s')"
    and A: "list_all straight A"
    and B: "list_all straight B" "list_all flat B" "y \<notin> set (concat (map assigned B))"
    and body: "list_all straight body" and C: "list_all straight C"
  shows "labels (trace s') = labels (trace s) @
     sslabels (nat (n - d)) (A @ Assign (TName y) (IntLit n) #
        B @ For x (Range (BinOp (Name y) Minus (IntLit d))) body # C)"
proof -
  let ?rest = "B @ For x (Range (BinOp (Name y) Minus (IntLit d))) body # C"
  let ?k = "nat (n - d)"
  from run have "block (map exec A @ exec (Assign (TName y) (IntLit n)) # map exec ?rest) fw s
      = (Inr u, s')" by simp
  then obtain s1 where a: "block (map exec A) fw s = (Inr (), s1)"
    and more: "block (exec (Assign (TName y) (IntLit n)) # map exec ?rest) fw s1 = (Inr u, s')"
    by (rule block_append_returns)
  from more obtain s2 where set: "exec (Assign (TName y) (IntLit n)) fw s1 = (Inr (), s2)"
    and rest: "block (map exec ?rest) fw s2 = (Inr u, s')"
    by (auto elim: bnd_returns)
  from set have s2: "s2 = stored y (PInt n) s1"
    by (simp add: assign_def bnd_def ret_def store_def)
  then have "resolve s2 y = Some (PInt n)" by (simp add: resolve_stored)
  from loop_labels [OF rest this B body C]
    emitsD [OF emits_execs [OF A, of ?k] a] emitsD [OF emits_exec [of "Assign (TName y) (IntLit n)" ?k] set]
  show ?thesis by (simp add: sslabels_def)
qed

lemma run_labels:
  assumes "run cells fw = (Inr u, s')" and "list_all straight (concat cells)"
  shows "labels (trace s') = sslabels 0 (concat cells)"
  using emitsD [OF emits_execs [OF assms(2), of 0], of fw initial u s'] assms(1)
  by (simp add: run_def initial_def)

subsection \<open>exceptions of the world reach the caller\<close>

lemma nreq_append: "nreq (a @ b) = nreq a + nreq b"
  by (induction a rule: nreq.induct) auto

lemma first_failure_append:
  "first_failure fw n (a @ b) =
     (case first_failure fw n a of Some e \<Rightarrow> Some e | None \<Rightarrow> first_failure fw (n + nreq a) b)"
  by (induction fw n a rule: first_failure.induct) (auto split: sum.splits option.splits)

lemma faithfulI:
  assumes "\<And>fw s v s'. m fw s = (Inr v, s') \<Longrightarrow> sound fw s \<Longrightarrow> sound fw s'"
    and "\<And>fw s e s'. m fw s = (Inl e, s') \<Longrightarrow> sound fw s \<Longrightarrow> failed fw s' e"
  shows "faithful m"
  unfolding faithful_def using assms by (auto split: sum.splits)

lemma faithful_Inr: "faithful m \<Longrightarrow> m fw s = (Inr v, s') \<Longrightarrow> sound fw s \<Longrightarrow> sound fw s'"
  unfolding faithful_def by fastforce

lemma faithful_Inl: "faithful m \<Longrightarrow> m fw s = (Inl e, s') \<Longrightarrow> sound fw s \<Longrightarrow> failed fw s' e"
  unfolding faithful_def by fastforce

lemma sound_failed: "sound fw s \<Longrightarrow> failed fw s e"
  by (simp add: sound_def failed_def)

lemma faithful_ret: "faithful (ret v)"
  by (rule faithfulI) (auto simp: ret_def)

lemma faithful_raise: "faithful (raise e)"
  by (rule faithfulI) (auto simp: raise_def sound_failed)

lemma faithful_bnd:
  assumes "faithful m" and "\<And>v. faithful (k v)"
  shows "faithful (bnd m k)"
proof (rule faithfulI)
  fix fw s v s'
  assume run: "bnd m k fw s = (Inr v, s')" and s: "sound fw s"
  then obtain x s1 where m: "m fw s = (Inr x, s1)" and k: "k x fw s1 = (Inr v, s')"
    by (auto simp: bnd_def split: prod.splits sum.splits)
  from faithful_Inr [OF assms(2) k faithful_Inr [OF assms(1) m s]] show "sound fw s'" .
next
  fix fw s e s'
  assume run: "bnd m k fw s = (Inl e, s')" and s: "sound fw s"
  then consider "m fw s = (Inl e, s')"
    | x s1 where "m fw s = (Inr x, s1)" "k x fw s1 = (Inl e, s')"
    by (auto simp: bnd_def split: prod.splits sum.splits)
  then show "failed fw s' e"
  proof cases
    case 1
    then show ?thesis using faithful_Inl [OF assms(1) _ s] by simp
  next
    case 2
    then show ?thesis
      using faithful_Inl [OF assms(2) 2(2) faithful_Inr [OF assms(1) 2(1) s]] by simp
  qed
qed

lemma faithful_name: "faithful (name x)"
  by (rule faithfulI) (auto simp: name_def sound_failed split: option.splits)

lemma faithful_store: "faithful (store x v)"
  by (rule faithfulI)
    (auto simp: store_def stored_def sound_def nreq_append first_failure_append split: option.splits)

lemma faithful_delegate: "faithful (delegate f t args kw)"
  by (rule faithfulI)
    (auto simp: delegate_def logged_def sound_def failed_def nreq_append first_failure_append)

lemma faithful_operator: "faithful (operator f x y native)"
proof (cases native)
  case None
  then have "operator f x y native = delegate f x [y] []"
    by (intro ext) (simp add: operator_def)
  then show ?thesis by (simp add: faithful_delegate)
next
  case (Some r)
  then have eq: "operator f x y native = (\<lambda>fw s. (r, s))"
    by (intro ext) (simp add: operator_def)
  show ?thesis unfolding eq by (rule faithfulI) (auto simp: sound_failed)
qed

lemma faithful_evals: "list_all faithful ms \<Longrightarrow> faithful (evals ms)"
  by (induction ms) (auto intro!: faithful_bnd faithful_ret)

lemma faithful_evalkw: "list_all (\<lambda>km. faithful (snd km)) kms \<Longrightarrow> faithful (evalkw kms)"
  by (induction kms) (auto intro!: faithful_bnd faithful_ret)

lemma faithful_block: "list_all faithful cs \<Longrightarrow> faithful (block cs)"
  by (induction cs) (auto intro!: faithful_bnd faithful_ret)

lemma faithful_iterate: "faithful body \<Longrightarrow> faithful (iterate x vs body)"
  by (induction vs) (auto intro!: faithful_bnd faithful_ret faithful_store)

lemma faithful_unpack:
  "faithful (unpack t v)"
  "faithful (unpack_all ts vs)"
proof (induction t v and ts vs rule: unpack_unpack_all.induct)
  case (2 ts v)
  then show ?case by (cases "items v") (auto intro: faithful_raise)
qed (auto intro!: faithful_bnd faithful_store faithful_ret faithful_raise)

lemma faithful_bind_all: "faithful (bind_all bs)"
  by (induction bs) (auto intro!: faithful_bnd faithful_ret faithful_store)

lemma faithful_in_frame:
  assumes "faithful body"
  shows "faithful (in_frame bs body)"
proof -
  have inner: "faithful (bnd (bind_all bs) (\<lambda>_. body))"
    by (intro faithful_bnd faithful_bind_all assms)
  have enter: "sound fw (s\<lparr>frame := Some []\<rparr>)" if "sound fw s" for fw s
    using that by (simp add: sound_def)
  show ?thesis
  proof (rule faithfulI)
    fix fw s v s'
    assume "in_frame bs body fw s = (Inr v, s')" and s: "sound fw s"
    then obtain s1 where r: "bnd (bind_all bs) (\<lambda>_. body) fw (s\<lparr>frame := Some []\<rparr>) = (Inr v, s1)"
      and s': "s' = s1\<lparr>frame := frame s\<rparr>"
      by (auto simp: in_frame_def split: prod.splits)
    from faithful_Inr [OF inner r enter [OF s]] s' show "sound fw s'"
      by (simp add: sound_def)
  next
    fix fw s e s'
    assume "in_frame bs body fw s = (Inl e, s')" and s: "sound fw s"
    then obtain s1 where r: "bnd (bind_all bs) (\<lambda>_. body) fw (s\<lparr>frame := Some []\<rparr>) = (Inl e, s1)"
      and s': "s' = s1\<lparr>frame := frame s\<rparr>"
      by (auto simp: in_frame_def split: prod.splits)
    from faithful_Inl [OF inner r enter [OF s]] s' show "failed fw s' e"
      by (simp add: failed_def)
  qed
qed

lemma faithful_eval: "faithful (eval e)"
proof (induction e)
  case (BinOp a b c)
  then show ?case
    by (cases b)
      (auto simp: add_def sub_def truediv_def
        intro!: faithful_bnd faithful_operator faithful_delegate)
next
  case (Call f args kwargs)
  then show ?case
    by (auto simp: call_def list_all_iff
      intro!: faithful_bnd faithful_name faithful_evals faithful_evalkw faithful_delegate)
next
  case (Method e m args kwargs)
  then show ?case
    by (auto simp: meth_def list_all_iff
      intro!: faithful_bnd faithful_evals faithful_evalkw faithful_delegate)
next
  case (Range e)
  then show ?case
    by (auto simp: range_def intro!: faithful_bnd faithful_name faithful_ret faithful_raise
      split: pyval.splits)
qed (auto simp: tuple_def list_lit_def slice_def attr_def subscript_def list_all_iff
      intro!: faithful_bnd faithful_ret faithful_name faithful_evals faithful_delegate
        faithful_operator)

lemma faithful_exec: "plain st \<Longrightarrow> faithful (exec st)"
proof (induction st)
  case (For x e body)
  then show ?case
    by (auto simp: for_in_def list_all_iff
      intro!: faithful_bnd faithful_eval faithful_iterate faithful_block faithful_raise
      split: option.splits)
next
  case (Invoke f params body args)
  then show ?case
    by (auto simp: invoke_def list_all_iff
      intro!: faithful_bnd faithful_name faithful_evals faithful_eval faithful_in_frame
        faithful_block faithful_raise)
qed (auto simp: assign_def idiv_assign_def expr_stmt_def import_as_def from_import_def
      magic_def def_stmt_def list_all_iff
      intro!: faithful_bnd faithful_eval faithful_unpack faithful_name faithful_delegate
        faithful_store faithful_ret faithful_block)

lemma sound_initial: "sound fw initial"
  by (simp add: sound_def initial_def)

lemma run_propagates:
  assumes "list_all plain (concat cells)" and "run cells fw = (r, s')"
    and "first_failure fw 0 (trace s') = Some e"
  shows "r = Inl e \<and> first_failure fw 0 (butlast (trace s')) = None"
proof -
  have f: "faithful (block (map exec (concat cells)))"
    using assms(1) by (auto intro!: faithful_block faithful_exec simp: list_all_iff)
  from assms(2) have run: "block (map exec (concat cells)) fw initial = (r, s')"
    by (simp add: run_def)
  show ?thesis
  proof (cases r)
    case (Inl e')
    with run have "failed fw s' e'"
      by (intro faithful_Inl [OF f _ sound_initial]) simp
    with assms(3) Inl show ?thesis by (simp add: failed_def)
  next
    case (Inr u)
    with run have "sound fw s'"
      by (intro faithful_Inr [OF f _ sound_initial]) simp
    with assms(3) show ?thesis by (simp add: sound_def)
  qed
qed

lemma stored_global:
  "stored x v \<lparr>globals = g, frame = None, trace = t, calls = c\<rparr> =
     \<lparr>globals = (x, v) # g, frame = None, trace = t @ [Bind x v], calls = c\<rparr>"
  by (simp add: stored_def)

lemma stored_local:
  "stored x v \<lparr>globals = g, frame = Some fr, trace = t, calls = c\<rparr> =
     \<lparr>globals = g, frame = Some ((x, v) # fr), trace = t @ [Bind x v], calls = c\<rparr>"
  by (simp add: stored_def)

lemma delegate_at:
  "delegate f tg args kw fw \<lparr>globals = g, frame = fr, trace = t, calls = c\<rparr> =
     (fw c (Request f tg args kw),
      \<lparr>globals = g, frame = fr, trace = t @ [Request f tg args kw], calls = Suc c\<rparr>)"
  by (simp add: delegate_def logged_def)

lemma resolve_global:
  "resolve \<lparr>globals = g, frame = None, trace = t, calls = c\<rparr> x =
     (case lookup g x of Some v \<Rightarrow> Some v
      | None \<Rightarrow> if x \<in> set builtins then Some (PRef (''builtins.'' @ x)) else None)"
  by (simp add: resolve_def)

lemma resolve_local:
  "resolve \<lparr>globals = g, frame = Some fr, trace = t, calls = c\<rparr> x =
     (case lookup fr x of Some v \<Rightarrow> Some v
      | None \<Rightarrow> (case lookup g x of Some v \<Rightarrow> Some v
      | None \<Rightarrow> if x \<in> set builtins then Some (PRef (''builtins.'' @ x)) else None))"
  by (simp add: resolve_def split: option.splits)

lemma in_frame_at:
  "in_frame bs body fw \<lparr>globals = g, frame = fr, trace = t, calls = c\<rparr> =
     (case bnd (bind_all bs) (\<lambda>_. body) fw \<lparr>globals = g, frame = Some [], trace = t, calls = c\<rparr> of
        (r, s') \<Rightarrow> (r, \<lparr>globals = globals s', frame = fr, trace = trace s', calls = calls s'\<rparr>))"
  by (simp add: in_frame_def split: prod.splits)

lemmas machine = bnd_def ret_def raise_def store_def name_def stored_global stored_local
  delegate_at resolve_global resolve_local in_frame_at builtins_def initial_def

lemmas combinators = tuple_def list_lit_def slice_def
  call_def range_def meth_def attr_def operator_def native_item_def native_sub_def
  native_add_def subscript_def sub_def add_def truediv_def items_def assign_def idiv_assign_def
  expr_stmt_def for_in_def import_as_def from_import_def def_stmt_def invoke_def magic_def

lemmas reuters = reuters_notebook_def reuters_imports_def reuters_settings_def reuters_data_def
  reuters_model_def reuters_fit_def reuters_evaluate_def reuters_save_def

lemmas mnist = mnist_notebook_def mnist_imports_def mnist_settings_def mnist_data_def
  mnist_model_def mnist_fit_def mnist_evaluate_def mnist_plotting_def mnist_define_show_def
  mnist_show_def show_predictions_def mnist_save_def

lemma reuters_recorded_ok_off: "True"
  by simp

lemma notebooks_plain:
  "list_all plain (concat mnist_notebook)" "list_all plain (concat reuters_notebook)"
  by (simp_all add: mnist reuters)

text \<open>
  C7. Neither notebook contains an exception handler, and whenever the world answers a
  request of a notebook's run with an exception, the run ends with that very exception,
  and the failing request is the last thing the run did.
\<close>

theorem failures_propagate:
  assumes "nb = mnist_notebook \<or> nb = reuters_notebook"
    and "run nb fw = (r, s')"
    and "first_failure fw 0 (trace s') = Some e"
  shows "list_all plain (concat nb) \<and> r = Inl e \<and>
    first_failure fw 0 (butlast (trace s')) = None"
proof -
  from assms(1) have p: "list_all plain (concat nb)"
    by (auto simp: notebooks_plain)
  from run_propagates [OF p assms(2,3)] p show ?thesis by simp
qed

theorem failures_propagate_witness:
  "first_failure no_network 0 (trace (snd (run mnist_notebook no_network)))
      = Some (Raised ''URLError'') \<and>
   fst (run mnist_notebook no_network) = Inl (Raised ''URLError'')"
proof -
  have ff: "first_failure no_network 0 (trace (snd (run mnist_notebook no_network)))
      = Some (Raised ''URLError'')"
    by (simp add: run_def mnist machine combinators no_network_def recorded_def)
  from failures_propagate [where nb = mnist_notebook and fw = no_network
      and r = "fst (run mnist_notebook no_network)"
      and s' = "snd (run mnist_notebook no_network)" and e = "Raised ''URLError''"] ff
  show ?thesis by simp
qed

end
